theory Spec2Isabelle
  imports Complex_Main "HOL-Library.Sublist"
begin

section \<open>The Lauda T2200 device server (LaudaT2200.py)\<close>

text \<open>
  The class \<^verbatim>\<open>LaudaT2200\<close> keeps the last readings of a chiller, two pending write
  requests and the Tango device state. A background thread (\<^verbatim>\<open>_communication_loop\<close>)
  is the only code that talks to the serial port after start-up. The embedding below
  follows the source method by method. Methods whose Python name starts with an
  underscore carry the prefix \<open>priv_\<close> here, since an Isabelle name starts with a letter.

  Not modelled: the log streams (\<^verbatim>\<open>info_stream\<close>, \<^verbatim>\<open>error_stream\<close>, \<^verbatim>\<open>print\<close>)
  and the two \<^verbatim>\<open>time.sleep(1)\<close> calls. The attribute methods run on the Tango thread;
  they are functions on the object, applied between two methods of the communication
  thread (see the schedules below). A call that lands inside a method is not modelled.
\<close>

subsection \<open>Values\<close>

text \<open>The members of \<^verbatim>\<open>tango.DevState\<close> that the source sets.\<close>

datatype DevState = INIT | ON | RUNNING | FAULT

text \<open>
  A Python \<^verbatim>\<open>float\<close>: every finite binary64 value is a rational number; the sign of
  zero is not distinguished.
\<close>

datatype pyfloat = Finite rat | PosInf | NegInf | NaN

text \<open>The exceptions that the modelled calls can raise.\<close>

datatype exn = ValueError | OverflowError | SerialException | UnicodeDecodeError

text \<open>
  The command vocabulary. \<open>OUT_SP_00 v\<close> stands for the line
  \<^verbatim>\<open>f"OUT_SP_00_{self._temp_setp}\r\n"\<close>; the textual form of the number is not modelled.
\<close>

datatype command =
  STATUS | STAT | IN_PV_00 | IN_PV_02 | IN_SP_00 | IN_MODE_02 | START | STOP
  | OUT_SP_00 pyfloat

subsection \<open>Python built-ins\<close>

text \<open>
  \<^verbatim>\<open>float(response)\<close> and \<^verbatim>\<open>int(response)\<close> on a string are built-ins of the
  language, not code of the repository. They are parameters of the model; \<open>None\<close>
  stands for \<^verbatim>\<open>ValueError\<close>, the only exception they raise on a string.
\<close>

record builtins =
  float_str :: "string \<Rightarrow> pyfloat option"
  int_str :: "string \<Rightarrow> int option"

text \<open>
  \<^verbatim>\<open>int(x)\<close> on a float truncates towards zero, raises \<^verbatim>\<open>OverflowError\<close> on an
  infinity and \<^verbatim>\<open>ValueError\<close> on a NaN.
\<close>

fun int_float :: "pyfloat \<Rightarrow> exn + int" where
  "int_float (Finite q) = Inr (if 0 \<le> q then \<lfloor>q\<rfloor> else \<lceil>q\<rceil>)"
| "int_float PosInf = Inl OverflowError"
| "int_float NegInf = Inl OverflowError"
| "int_float NaN = Inl ValueError"

subsection \<open>The device object\<close>

text \<open>
  The fields of \<^verbatim>\<open>self\<close> set by \<^verbatim>\<open>init_device\<close> (the leading underscore dropped),
  the Tango state, and two histories that make the effects observable: \<open>sent\<close>, the
  commands passed to \<^verbatim>\<open>serial_port.write\<close> in order, and \<open>pushed\<close>, the values
  passed to \<^verbatim>\<open>push_change_event("is_on", ...)\<close> in order.
\<close>

record LaudaT2200 =
  state :: DevState
  bath_temp :: pyfloat
  temp_setp :: pyfloat
  temp_setp_changed :: bool
  chiller_status :: string
  is_on :: bool
  is_on_toggle :: bool
  pressure :: pyfloat
  sent :: "command list"
  pushed :: "bool list"

text \<open>
  The serial port as the object sees it: the outcome of
  \<^verbatim>\<open>serial_port.write(command.encode())\<close> followed by
  \<^verbatim>\<open>serial_port.readline().decode().strip()\<close>. It is either the stripped response text
  or an exception (\<^verbatim>\<open>SerialException\<close> from the port, \<^verbatim>\<open>UnicodeDecodeError\<close> from
  \<^verbatim>\<open>decode\<close>). A read that times out returns no bytes, so its response is the empty
  string. Every command is sent at most once per cycle, so a function of the command
  describes the port during one cycle.
\<close>

type_synonym serial = "command \<Rightarrow> exn + string"

text \<open>
  A method either returns with the object updated, or raises: the exception and the
  object as it was left.
\<close>

type_synonym outcome = "(exn \<times> LaudaT2200) + LaudaT2200"

definition exchange ::
  "serial \<Rightarrow> command \<Rightarrow> LaudaT2200 \<Rightarrow> (exn \<times> LaudaT2200) + (string \<times> LaudaT2200)" where
  "exchange port c s =
     (let s1 = s\<lparr>sent := sent s @ [c]\<rparr>
      in case port c of Inl e \<Rightarrow> Inl (e, s1) | Inr response \<Rightarrow> Inr (response, s1))"

definition set_state :: "DevState \<Rightarrow> LaudaT2200 \<Rightarrow> LaudaT2200" where
  "set_state v s = s\<lparr>state := v\<rparr>"

subsection \<open>Data reading functions\<close>

definition priv_read_bath_temp :: "builtins \<Rightarrow> serial \<Rightarrow> LaudaT2200 \<Rightarrow> outcome" where
  "priv_read_bath_temp py port s =
     (case exchange port IN_PV_00 s of
        Inl err \<Rightarrow> Inl err
      | Inr (response, s1) \<Rightarrow>
          (case float_str py response of
             Some v \<Rightarrow> Inr (s1\<lparr>bath_temp := v\<rparr>)
           | None \<Rightarrow> Inr s1))"

text \<open>
  \<^verbatim>\<open>_read_chiller_status\<close> has no \<^verbatim>\<open>try\<close>: a \<^verbatim>\<open>ValueError\<close> of \<^verbatim>\<open>float\<close> and any
  exception of \<^verbatim>\<open>int\<close> leave the method.
\<close>

definition priv_read_chiller_status :: "builtins \<Rightarrow> serial \<Rightarrow> LaudaT2200 \<Rightarrow> outcome" where
  "priv_read_chiller_status py port s =
     (case exchange port STATUS s of
        Inl err \<Rightarrow> Inl err
      | Inr (response, s1) \<Rightarrow>
          (case float_str py response of
             None \<Rightarrow> Inl (ValueError, s1)
           | Some x \<Rightarrow>
               (case int_float x of
                  Inl e \<Rightarrow> Inl (e, s1)
                | Inr r \<Rightarrow>
                    (let s2 = (if r = 0 then s1
                               else if r = - 1 then set_state FAULT s1
                               else s1)
                     in case exchange port STAT s2 of
                          Inl err \<Rightarrow> Inl err
                        | Inr (response2, s3) \<Rightarrow>
                            Inr (s3\<lparr>chiller_status := response2\<rparr>)))))"

definition priv_read_pressure :: "builtins \<Rightarrow> serial \<Rightarrow> LaudaT2200 \<Rightarrow> outcome" where
  "priv_read_pressure py port s =
     (case exchange port IN_PV_02 s of
        Inl err \<Rightarrow> Inl err
      | Inr (response, s1) \<Rightarrow>
          (case float_str py response of
             Some v \<Rightarrow> Inr (s1\<lparr>pressure := v\<rparr>)
           | None \<Rightarrow> Inr s1))"

text \<open>
  In \<^verbatim>\<open>_read_is_on\<close> the \<^verbatim>\<open>try\<close> covers \<^verbatim>\<open>int(float(response))\<close> and catches
  \<^verbatim>\<open>ValueError\<close> only.
\<close>

definition priv_read_is_on :: "builtins \<Rightarrow> serial \<Rightarrow> LaudaT2200 \<Rightarrow> outcome" where
  "priv_read_is_on py port s =
     (case exchange port IN_MODE_02 s of
        Inl err \<Rightarrow> Inl err
      | Inr (response, s1) \<Rightarrow>
          (case float_str py response of
             None \<Rightarrow> Inr s1
           | Some x \<Rightarrow>
               (case int_float x of
                  Inl e \<Rightarrow> (if e = ValueError then Inr s1 else Inl (e, s1))
                | Inr r \<Rightarrow>
                    (if r = 0 then Inr (set_state RUNNING (s1\<lparr>is_on := True\<rparr>))
                     else if r = 1 then Inr (s1\<lparr>is_on := False\<rparr>)
                     else Inr s1))))"

definition priv_write_is_on :: "serial \<Rightarrow> LaudaT2200 \<Rightarrow> outcome" where
  "priv_write_is_on port s =
     (if is_on_toggle s then
        (case exchange port (if is_on s then START else STOP) s of
           Inl err \<Rightarrow> Inl err
         | Inr (response, s1) \<Rightarrow>
             (let s2 = (if is_on s1 then set_state RUNNING s1 else set_state ON s1);
                  s3 = s2\<lparr>pushed := pushed s2 @ [is_on s2]\<rparr>
              in Inr (s3\<lparr>is_on_toggle := False\<rparr>)))
      else Inr s)"

definition priv_read_setp :: "builtins \<Rightarrow> serial \<Rightarrow> LaudaT2200 \<Rightarrow> outcome" where
  "priv_read_setp py port s =
     (case exchange port IN_SP_00 s of
        Inl err \<Rightarrow> Inl err
      | Inr (response, s1) \<Rightarrow>
          (case float_str py response of
             Some v \<Rightarrow> Inr (s1\<lparr>temp_setp := v\<rparr>)
           | None \<Rightarrow> Inr s1))"

definition priv_write_setp :: "serial \<Rightarrow> LaudaT2200 \<Rightarrow> outcome" where
  "priv_write_setp port s =
     (if temp_setp_changed s then
        (case exchange port (OUT_SP_00 (temp_setp s)) s of
           Inl err \<Rightarrow> Inl err
         | Inr (response, s1) \<Rightarrow> Inr (s1\<lparr>temp_setp_changed := False\<rparr>))
      else Inr s)"

subsection \<open>The communication thread\<close>

text \<open>Statements in sequence: the first exception ends the sequence.\<close>

fun in_sequence :: "(LaudaT2200 \<Rightarrow> outcome) list \<Rightarrow> LaudaT2200 \<Rightarrow> outcome" where
  "in_sequence [] s = Inr s"
| "in_sequence (f # fs) s =
     (case f s of Inl err \<Rightarrow> Inl err | Inr s1 \<Rightarrow> in_sequence fs s1)"

text \<open>
  The body of \<^verbatim>\<open>while True\<close> in \<^verbatim>\<open>_communication_loop\<close>. The three \<^verbatim>\<open>with\<close> blocks
  take and release the same lock; with one thread they are plain sequencing.
\<close>

definition communication_cycle :: "builtins \<Rightarrow> serial \<Rightarrow> LaudaT2200 \<Rightarrow> outcome" where
  "communication_cycle py port =
     in_sequence
       [priv_write_is_on port,
        priv_write_setp port,
        priv_read_bath_temp py port,
        priv_read_pressure py port,
        priv_read_setp py port,
        priv_read_chiller_status py port,
        priv_read_is_on py port]"

text \<open>
  \<^verbatim>\<open>_communication_loop\<close> never returns: it runs until an exception leaves it, which
  ends the thread. The model runs it for as many cycles as the list has entries, the
  \<open>k\<close>-th entry being the port's behaviour during the \<open>k\<close>-th cycle. \<open>Inr s\<close> says that
  all these cycles were completed and the thread is alive in \<open>s\<close>; \<open>Inl (e, s)\<close> says
  that the thread has ended with \<open>e\<close>.
\<close>

fun communication_loop :: "builtins \<Rightarrow> serial list \<Rightarrow> LaudaT2200 \<Rightarrow> outcome" where
  "communication_loop py [] s = Inr s"
| "communication_loop py (port # ports) s =
     (case communication_cycle py port s of
        Inl err \<Rightarrow> Inl err
      | Inr s1 \<Rightarrow> communication_loop py ports s1)"

subsection \<open>Start-up\<close>

text \<open>The assignments at the top of \<^verbatim>\<open>init_device\<close>.\<close>

definition initial :: LaudaT2200 where
  "initial =
     \<lparr>state = INIT, bath_temp = Finite 0, temp_setp = Finite 21,
      temp_setp_changed = False, chiller_status = [], is_on = False,
      is_on_toggle = False, pressure = Finite 0, sent = [], pushed = []\<rparr>"

text \<open>
  \<^verbatim>\<open>init_device\<close>. The argument is the outcome of \<^verbatim>\<open>serial.Serial(...)\<close> and of opening
  the port: an exception or the open port. The result is the object and whether
  \<^verbatim>\<open>comm_thread.start()\<close> was reached. \<^verbatim>\<open>except Exception\<close> catches every exception
  of the \<^verbatim>\<open>try\<close> block.
\<close>

definition init_device :: "builtins \<Rightarrow> exn + serial \<Rightarrow> LaudaT2200 \<times> bool" where
  "init_device py conn =
     (let s = initial in
      case conn of
        Inl e \<Rightarrow> (set_state FAULT s, False)
      | Inr port \<Rightarrow>
          (case exchange port STATUS s of
             Inl (e, s1) \<Rightarrow> (set_state FAULT s1, False)
           | Inr (response, s1) \<Rightarrow>
               (case int_str py response of
                  None \<Rightarrow> (set_state FAULT s1, False)
                | Some n \<Rightarrow>
                    ((if n = 0 then set_state ON s1
                      else if n = - 1 then set_state FAULT s1
                      else s1),
                     True))))"

subsection \<open>Attribute read and write methods\<close>

definition read_bath_temp :: "LaudaT2200 \<Rightarrow> pyfloat" where
  "read_bath_temp s = bath_temp s"

definition read_temp_setp :: "LaudaT2200 \<Rightarrow> pyfloat" where
  "read_temp_setp s = temp_setp s"

definition read_chiller_status :: "LaudaT2200 \<Rightarrow> string" where
  "read_chiller_status s = chiller_status s"

definition read_is_on :: "LaudaT2200 \<Rightarrow> bool" where
  "read_is_on s = is_on s"

definition read_pressure :: "LaudaT2200 \<Rightarrow> pyfloat" where
  "read_pressure s = pressure s"

definition write_temp_setp :: "pyfloat \<Rightarrow> LaudaT2200 \<Rightarrow> LaudaT2200" where
  "write_temp_setp v s = s\<lparr>temp_setp := v, temp_setp_changed := True\<rparr>"

definition write_is_on :: "bool \<Rightarrow> LaudaT2200 \<Rightarrow> LaudaT2200" where
  "write_is_on v s = s\<lparr>is_on_toggle := True, is_on := v\<rparr>"

subsection \<open>Attribute writes that land during a cycle\<close>

text \<open>
  \<^verbatim>\<open>write_temp_setp\<close> and \<^verbatim>\<open>write_is_on\<close> take no lock, and the loop body gives up
  \<^verbatim>\<open>serial_lock\<close> between its three \<^verbatim>\<open>with\<close> blocks, so a write of the Tango thread can
  land between any two methods of the communication thread. A schedule lists, for the
  methods of a cycle in order, the calls that land just before each of them; a schedule
  shorter than the cycle has no calls before the remaining methods. Calls after the last
  method are the calls before the first method of the next cycle.
\<close>

datatype call = Write_temp_setp pyfloat | Write_is_on bool

fun collaborator :: "call \<Rightarrow> LaudaT2200 \<Rightarrow> LaudaT2200" where
  "collaborator (Write_temp_setp v) s = write_temp_setp v s"
| "collaborator (Write_is_on v) s = write_is_on v s"

fun interleaved ::
  "call list list \<Rightarrow> (LaudaT2200 \<Rightarrow> outcome) list \<Rightarrow> LaudaT2200 \<Rightarrow> outcome" where
  "interleaved css [] s = Inr s"
| "interleaved [] (f # fs) s =
     (case f s of Inl err \<Rightarrow> Inl err | Inr s1 \<Rightarrow> interleaved [] fs s1)"
| "interleaved (cs # css) (f # fs) s =
     (case f (fold collaborator cs s) of
        Inl err \<Rightarrow> Inl err
      | Inr s1 \<Rightarrow> interleaved css fs s1)"

text \<open>The body of the loop, and the loop, under a schedule for each cycle.\<close>

definition communication_cycle_with ::
  "builtins \<Rightarrow> serial \<Rightarrow> call list list \<Rightarrow> LaudaT2200 \<Rightarrow> outcome" where
  "communication_cycle_with py port css =
     interleaved css
       [priv_write_is_on port,
        priv_write_setp port,
        priv_read_bath_temp py port,
        priv_read_pressure py port,
        priv_read_setp py port,
        priv_read_chiller_status py port,
        priv_read_is_on py port]"

fun communication_loop_with ::
  "builtins \<Rightarrow> (serial \<times> call list list) list \<Rightarrow> LaudaT2200 \<Rightarrow> outcome" where
  "communication_loop_with py [] s = Inr s"
| "communication_loop_with py ((port, css) # rest) s =
     (case communication_cycle_with py port css s of
        Inl err \<Rightarrow> Inl err
      | Inr s1 \<Rightarrow> communication_loop_with py rest s1)"

subsection \<open>An instance of the built-ins for plain decimal responses\<close>

text \<open>
  To run the model on concrete responses: \<^verbatim>\<open>float\<close> and \<^verbatim>\<open>int\<close> on an optional sign
  followed by decimal digits (for \<^verbatim>\<open>float\<close> with an optional point, and the words
  \<^verbatim>\<open>inf\<close> and \<^verbatim>\<open>nan\<close>). Everything else raises. The value of a decimal is taken
  exactly, where Python rounds to the nearest binary64 number.
\<close>

definition digit_val :: "char \<Rightarrow> nat option" where
  "digit_val c =
     (let n = (of_char c :: nat) in if 48 \<le> n \<and> n \<le> 57 then Some (n - 48) else None)"

fun digits_val :: "nat \<Rightarrow> string \<Rightarrow> nat option" where
  "digits_val acc [] = Some acc"
| "digits_val acc (c # cs) =
     (case digit_val c of None \<Rightarrow> None | Some d \<Rightarrow> digits_val (10 * acc + d) cs)"

definition unsigned_int :: "string \<Rightarrow> int option" where
  "unsigned_int t = (if t = [] then None else map_option int (digits_val 0 t))"

definition decimal_int :: "string \<Rightarrow> int option" where
  "decimal_int t =
     (case t of
        [] \<Rightarrow> None
      | c # u \<Rightarrow>
          (if c = CHR ''-'' then map_option uminus (unsigned_int u)
           else if c = CHR ''+'' then unsigned_int u
           else unsigned_int t))"

definition unsigned_float :: "string \<Rightarrow> rat option" where
  "unsigned_float t =
     (let ip = takeWhile (\<lambda>c. c \<noteq> CHR ''.'') t;
          fp = drop 1 (dropWhile (\<lambda>c. c \<noteq> CHR ''.'') t)
      in if ip = [] \<and> fp = [] then None
         else (case (digits_val 0 ip, digits_val 0 fp) of
                 (Some a, Some b) \<Rightarrow> Some (of_nat a + of_nat b / 10 ^ length fp)
               | _ \<Rightarrow> None))"

definition decimal_float :: "string \<Rightarrow> pyfloat option" where
  "decimal_float t =
     (if t = ''inf'' then Some PosInf
      else if t = ''-inf'' then Some NegInf
      else if t = ''nan'' then Some NaN
      else (case t of
              [] \<Rightarrow> None
            | c # u \<Rightarrow>
                (if c = CHR ''-'' then map_option (\<lambda>q. Finite (- q)) (unsigned_float u)
                 else if c = CHR ''+'' then map_option Finite (unsigned_float u)
                 else map_option Finite (unsigned_float t))))"

definition decimal :: builtins where
  "decimal = \<lparr>float_str = decimal_float, int_str = decimal_int\<rparr>"

text \<open>
  The simulated device of the reference run: it answers \<^verbatim>\<open>0\<close> to \<^verbatim>\<open>STATUS\<close>,
  \<^verbatim>\<open>23.5\<close> to \<^verbatim>\<open>IN_PV_00\<close>, \<^verbatim>\<open>1.2\<close> to \<^verbatim>\<open>IN_PV_02\<close>, \<^verbatim>\<open>21.0\<close> to \<^verbatim>\<open>IN_SP_00\<close>,
  \<^verbatim>\<open>OK\<close> to \<^verbatim>\<open>STAT\<close> and \<^verbatim>\<open>0\<close> to \<^verbatim>\<open>IN_MODE_02\<close>, and echoes \<^verbatim>\<open>OK\<close> to the writes.
\<close>

fun reference_device :: serial where
  "reference_device STATUS = Inr ''0''"
| "reference_device IN_PV_00 = Inr ''23.5''"
| "reference_device IN_PV_02 = Inr ''1.2''"
| "reference_device IN_SP_00 = Inr ''21.0''"
| "reference_device STAT = Inr ''OK''"
| "reference_device IN_MODE_02 = Inr ''0''"
| "reference_device START = Inr ''OK''"
| "reference_device STOP = Inr ''OK''"
| "reference_device (OUT_SP_00 v) = Inr ''OK''"

text \<open>A port that answers every command with the same text, and one that always raises.\<close>

definition answering :: "string \<Rightarrow> serial" where
  "answering r c = Inr r"

definition failing :: "exn \<Rightarrow> serial" where
  "failing e c = Inl e"

text \<open>
  The exchanges of one cycle in the order the specification gives them: first the
  flushes of the pending requests as they stand at the start of the cycle (power, then
  setpoint), then the reads.
\<close>

definition flush_commands :: "LaudaT2200 \<Rightarrow> command list" where
  "flush_commands s =
     (if is_on_toggle s then [if is_on s then START else STOP] else [])
     @ (if temp_setp_changed s then [OUT_SP_00 (temp_setp s)] else [])"

definition read_commands :: "command list" where
  "read_commands = [IN_PV_00, IN_PV_02, IN_SP_00, STATUS, STAT, IN_MODE_02]"

section \<open>Properties\<close>

subsection \<open>Effect of each step on the histories and the pending flags\<close>

lemma exchange_Inr_iff:
  "exchange port c s = Inr (r, s1) \<longleftrightarrow> port c = Inr r \<and> s1 = s\<lparr>sent := sent s @ [c]\<rparr>"
  by (auto simp: exchange_def Let_def split: sum.splits)

lemma exchange_Inl_iff:
  "exchange port c s = Inl (e, s1) \<longleftrightarrow> port c = Inl e \<and> s1 = s\<lparr>sent := sent s @ [c]\<rparr>"
  by (auto simp: exchange_def Let_def split: sum.splits)

lemma in_sequence_Cons_Inr:
  "in_sequence (f # fs) s = Inr s' \<longleftrightarrow> (\<exists>s1. f s = Inr s1 \<and> in_sequence fs s1 = Inr s')"
  by (simp split: sum.splits)

lemma in_sequence_Cons_Inl:
  "in_sequence (f # fs) s = Inl err \<longleftrightarrow>
     f s = Inl err \<or> (\<exists>s1. f s = Inr s1 \<and> in_sequence fs s1 = Inl err)"
  by (simp split: sum.splits)

lemma priv_write_is_on_Inr:
  assumes "priv_write_is_on port s = Inr s'"
  shows "s' = (if is_on_toggle s
               then s\<lparr>sent := sent s @ [if is_on s then START else STOP],
                      state := (if is_on s then RUNNING else ON),
                      pushed := pushed s @ [is_on s], is_on_toggle := False\<rparr>
               else s)"
  using assms
  by (auto simp: priv_write_is_on_def exchange_Inr_iff exchange_Inl_iff set_state_def Let_def
      split: if_splits sum.splits)

lemma priv_write_is_on_Inl:
  assumes "priv_write_is_on port s = Inl (e, s')"
  shows "is_on_toggle s \<and> s' = s\<lparr>sent := sent s @ [if is_on s then START else STOP]\<rparr>"
  using assms
  by (auto simp: priv_write_is_on_def exchange_Inr_iff exchange_Inl_iff set_state_def Let_def
      split: if_splits sum.splits)

lemma priv_write_setp_Inr:
  assumes "priv_write_setp port s = Inr s'"
  shows "s' = (if temp_setp_changed s
               then s\<lparr>sent := sent s @ [OUT_SP_00 (temp_setp s)], temp_setp_changed := False\<rparr>
               else s)"
  using assms
  by (auto simp: priv_write_setp_def exchange_Inr_iff exchange_Inl_iff split: if_splits sum.splits)

lemma priv_write_setp_Inl:
  assumes "priv_write_setp port s = Inl (e, s')"
  shows "temp_setp_changed s \<and> s' = s\<lparr>sent := sent s @ [OUT_SP_00 (temp_setp s)]\<rparr>"
  using assms
  by (auto simp: priv_write_setp_def exchange_Inr_iff exchange_Inl_iff split: if_splits sum.splits)

lemma priv_read_bath_temp_Inr:
  assumes "priv_read_bath_temp py port s = Inr s'"
  shows "sent s' = sent s @ [IN_PV_00] \<and> pushed s' = pushed s
         \<and> is_on_toggle s' = is_on_toggle s \<and> temp_setp_changed s' = temp_setp_changed s"
  using assms
  by (auto simp: priv_read_bath_temp_def exchange_Inr_iff exchange_Inl_iff split: sum.splits option.splits)

lemma priv_read_bath_temp_Inl:
  assumes "priv_read_bath_temp py port s = Inl (e, s')"
  shows "sent s' = sent s @ [IN_PV_00]"
  using assms
  by (auto simp: priv_read_bath_temp_def exchange_Inr_iff exchange_Inl_iff split: sum.splits option.splits)

lemma priv_read_pressure_Inr:
  assumes "priv_read_pressure py port s = Inr s'"
  shows "sent s' = sent s @ [IN_PV_02] \<and> pushed s' = pushed s
         \<and> is_on_toggle s' = is_on_toggle s \<and> temp_setp_changed s' = temp_setp_changed s"
  using assms
  by (auto simp: priv_read_pressure_def exchange_Inr_iff exchange_Inl_iff split: sum.splits option.splits)

lemma priv_read_pressure_Inl:
  assumes "priv_read_pressure py port s = Inl (e, s')"
  shows "sent s' = sent s @ [IN_PV_02]"
  using assms
  by (auto simp: priv_read_pressure_def exchange_Inr_iff exchange_Inl_iff split: sum.splits option.splits)

lemma priv_read_setp_Inr:
  assumes "priv_read_setp py port s = Inr s'"
  shows "sent s' = sent s @ [IN_SP_00] \<and> pushed s' = pushed s
         \<and> is_on_toggle s' = is_on_toggle s \<and> temp_setp_changed s' = temp_setp_changed s"
  using assms
  by (auto simp: priv_read_setp_def exchange_Inr_iff exchange_Inl_iff split: sum.splits option.splits)

lemma priv_read_setp_Inl:
  assumes "priv_read_setp py port s = Inl (e, s')"
  shows "sent s' = sent s @ [IN_SP_00]"
  using assms
  by (auto simp: priv_read_setp_def exchange_Inr_iff exchange_Inl_iff split: sum.splits option.splits)

lemma priv_read_chiller_status_Inr:
  assumes "priv_read_chiller_status py port s = Inr s'"
  shows "sent s' = sent s @ [STATUS, STAT] \<and> pushed s' = pushed s
         \<and> is_on_toggle s' = is_on_toggle s \<and> temp_setp_changed s' = temp_setp_changed s"
  using assms
  by (auto simp: priv_read_chiller_status_def exchange_Inr_iff exchange_Inl_iff set_state_def Let_def
      split: sum.splits option.splits if_splits)

lemma priv_read_chiller_status_Inl:
  assumes "priv_read_chiller_status py port s = Inl (e, s')"
  shows "sent s' = sent s @ [STATUS] \<or> sent s' = sent s @ [STATUS, STAT]"
  using assms
  by (auto simp: priv_read_chiller_status_def exchange_Inr_iff exchange_Inl_iff set_state_def Let_def
      split: sum.splits option.splits if_splits)

lemma priv_read_is_on_Inr:
  assumes "priv_read_is_on py port s = Inr s'"
  shows "sent s' = sent s @ [IN_MODE_02] \<and> pushed s' = pushed s
         \<and> is_on_toggle s' = is_on_toggle s \<and> temp_setp_changed s' = temp_setp_changed s"
  using assms
  by (auto simp: priv_read_is_on_def exchange_Inr_iff exchange_Inl_iff set_state_def
      split: sum.splits option.splits if_splits)

lemma priv_read_is_on_Inl:
  assumes "priv_read_is_on py port s = Inl (e, s')"
  shows "sent s' = sent s @ [IN_MODE_02]"
  using assms
  by (auto simp: priv_read_is_on_def exchange_Inr_iff exchange_Inl_iff set_state_def
      split: sum.splits option.splits if_splits)

lemma flush_Inr:
  assumes "in_sequence [priv_write_is_on port, priv_write_setp port] s = Inr s'"
  shows "sent s' = sent s @ flush_commands s
         \<and> pushed s' = pushed s @ (if is_on_toggle s then [is_on s] else [])
         \<and> \<not> is_on_toggle s' \<and> \<not> temp_setp_changed s'"
  using assms
  by (auto simp del: in_sequence.simps(2) simp: in_sequence_Cons_Inr flush_commands_def
      dest!: priv_write_is_on_Inr priv_write_setp_Inr split: if_splits)

lemma reads_Inr:
  assumes "in_sequence [priv_read_bath_temp py port, priv_read_pressure py port,
      priv_read_setp py port, priv_read_chiller_status py port, priv_read_is_on py port] s = Inr s'"
  shows "sent s' = sent s @ read_commands \<and> pushed s' = pushed s
         \<and> is_on_toggle s' = is_on_toggle s \<and> temp_setp_changed s' = temp_setp_changed s"
  using assms
  by (auto simp del: in_sequence.simps(2) simp: in_sequence_Cons_Inr read_commands_def
      dest!: priv_read_bath_temp_Inr priv_read_pressure_Inr priv_read_setp_Inr
        priv_read_chiller_status_Inr priv_read_is_on_Inr)

lemma in_sequence_append:
  "in_sequence (fs @ gs) s =
     (case in_sequence fs s of Inl err \<Rightarrow> Inl err | Inr s1 \<Rightarrow> in_sequence gs s1)"
  by (induction fs arbitrary: s) (auto split: sum.splits)

lemma communication_cycle_split:
  "communication_cycle py port s =
     (case in_sequence [priv_write_is_on port, priv_write_setp port] s of
        Inl err \<Rightarrow> Inl err
      | Inr s1 \<Rightarrow>
          in_sequence [priv_read_bath_temp py port, priv_read_pressure py port,
            priv_read_setp py port, priv_read_chiller_status py port,
            priv_read_is_on py port] s1)"
  unfolding communication_cycle_def
  using in_sequence_append [of "[priv_write_is_on port, priv_write_setp port]"
      "[priv_read_bath_temp py port, priv_read_pressure py port,
            priv_read_setp py port, priv_read_chiller_status py port,
            priv_read_is_on py port]" s]
  by simp

lemma communication_cycle_Inr:
  assumes "communication_cycle py port s = Inr s'"
  shows "sent s' = sent s @ flush_commands s @ read_commands
         \<and> pushed s' = pushed s @ (if is_on_toggle s then [is_on s] else [])
         \<and> \<not> is_on_toggle s' \<and> \<not> temp_setp_changed s'"
proof -
  from assms obtain s1 where
    f: "in_sequence [priv_write_is_on port, priv_write_setp port] s = Inr s1" and
    r: "in_sequence [priv_read_bath_temp py port, priv_read_pressure py port,
      priv_read_setp py port, priv_read_chiller_status py port, priv_read_is_on py port] s1 = Inr s'"
    unfolding communication_cycle_split by (auto split: sum.splits)
  from flush_Inr [OF f] reads_Inr [OF r] show ?thesis by simp
qed

lemma flush_Inl:
  assumes "in_sequence [priv_write_is_on port, priv_write_setp port] s = Inl (e, s')"
  shows "prefix (sent s') (sent s @ flush_commands s) \<and> prefix (sent s) (sent s')"
  using assms
  by (auto simp del: in_sequence.simps(2)
      simp: in_sequence_Cons_Inl in_sequence_Cons_Inr flush_commands_def
      dest!: priv_write_is_on_Inr priv_write_setp_Inr priv_write_is_on_Inl priv_write_setp_Inl
      split: if_splits)

lemma reads_Inl:
  assumes "in_sequence [priv_read_bath_temp py port, priv_read_pressure py port,
      priv_read_setp py port, priv_read_chiller_status py port, priv_read_is_on py port] s = Inl (e, s')"
  shows "prefix (sent s') (sent s @ read_commands)"
  using assms
  by (auto simp del: in_sequence.simps(2)
      simp: in_sequence_Cons_Inl in_sequence_Cons_Inr read_commands_def
      dest!: priv_read_bath_temp_Inr priv_read_pressure_Inr priv_read_setp_Inr
        priv_read_chiller_status_Inr priv_read_is_on_Inr
        priv_read_bath_temp_Inl priv_read_pressure_Inl priv_read_setp_Inl
        priv_read_chiller_status_Inl priv_read_is_on_Inl)

lemma communication_cycle_Inl:
  assumes "communication_cycle py port s = Inl (e, s')"
  shows "prefix (sent s') (sent s @ flush_commands s @ read_commands)"
proof (cases "in_sequence [priv_write_is_on port, priv_write_setp port] s")
  case (Inl err)
  with assms have "in_sequence [priv_write_is_on port, priv_write_setp port] s = Inl (e, s')"
    unfolding communication_cycle_split by simp
  from flush_Inl [OF this] show ?thesis
    by (metis append.assoc prefix_order.trans prefixI)
next
  case (Inr s1)
  with assms have r: "in_sequence [priv_read_bath_temp py port, priv_read_pressure py port,
      priv_read_setp py port, priv_read_chiller_status py port, priv_read_is_on py port] s1 = Inl (e, s')"
    unfolding communication_cycle_split by simp
  from flush_Inr [OF Inr] reads_Inl [OF r] show ?thesis by simp
qed

text \<open>With no call landing, a schedule runs the cycle and the loop as defined above.\<close>

lemma interleaved_no_calls: "interleaved [] fs s = in_sequence fs s"
  by (induction fs arbitrary: s) (auto split: sum.splits)

lemma communication_cycle_with_no_calls:
  "communication_cycle_with py port [] s = communication_cycle py port s"
  by (simp only: communication_cycle_with_def communication_cycle_def interleaved_no_calls)

lemma communication_loop_with_no_calls:
  "communication_loop_with py (map (\<lambda>port. (port, [])) ports) s = communication_loop py ports s"
  by (induction ports arbitrary: s)
    (auto simp: communication_cycle_with_no_calls split: sum.splits)

subsection \<open>Decoding of the float readings\<close>

text \<open>
  Claim C2. For every response \<open>R\<close> that \<^verbatim>\<open>float\<close> accepts, the bath temperature step
  (\<^verbatim>\<open>IN_PV_00\<close>) and the pressure step (\<^verbatim>\<open>IN_PV_02\<close>) store exactly the value
  \<^verbatim>\<open>float(R)\<close> in their field. For every response that \<^verbatim>\<open>float\<close> rejects, the step
  returns with the field as it was before the call; nothing but the history of sent
  commands changes.
\<close>

theorem read_float_steps:
  "(port IN_PV_00 = Inr R \<and> float_str py R = Some v \<longrightarrow>
      priv_read_bath_temp py port s = Inr (s\<lparr>sent := sent s @ [IN_PV_00], bath_temp := v\<rparr>))
   \<and> (port IN_PV_00 = Inr R \<and> float_str py R = None \<longrightarrow>
      priv_read_bath_temp py port s = Inr (s\<lparr>sent := sent s @ [IN_PV_00]\<rparr>))
   \<and> (port IN_PV_02 = Inr R \<and> float_str py R = Some v \<longrightarrow>
      priv_read_pressure py port s = Inr (s\<lparr>sent := sent s @ [IN_PV_02], pressure := v\<rparr>))
   \<and> (port IN_PV_02 = Inr R \<and> float_str py R = None \<longrightarrow>
      priv_read_pressure py port s = Inr (s\<lparr>sent := sent s @ [IN_PV_02]\<rparr>))"
  by (simp add: priv_read_bath_temp_def priv_read_pressure_def exchange_def)

theorem read_float_steps_witness:
  "float_str decimal ''7.25'' = Some (Finite (29 / 4))
   \<and> float_str decimal ''E01'' = None
   \<and> priv_read_bath_temp decimal (answering ''7.25'') initial =
        Inr (initial\<lparr>sent := [IN_PV_00], bath_temp := Finite (29 / 4)\<rparr>)
   \<and> priv_read_pressure decimal (answering ''7.25'') initial =
        Inr (initial\<lparr>sent := [IN_PV_02], pressure := Finite (29 / 4)\<rparr>)
   \<and> priv_read_bath_temp decimal (answering ''E01'') initial =
        Inr (initial\<lparr>sent := [IN_PV_00]\<rparr>)
   \<and> priv_read_pressure decimal (answering ''E01'') initial =
        Inr (initial\<lparr>sent := [IN_PV_02]\<rparr>)"
proof -
  have good: "float_str decimal ''7.25'' = Some (Finite (29 / 4))" by code_simp
  have bad: "float_str decimal ''E01'' = None" by code_simp
  show ?thesis
    using good bad
      read_float_steps [where port = "answering ''7.25''" and R = "''7.25''" and py = decimal
        and v = "Finite (29 / 4)" and s = initial]
      read_float_steps [where port = "answering ''E01''" and R = "''E01''" and py = decimal
        and s = initial]
    by (simp add: initial_def answering_def)
qed

subsection \<open>The run mode\<close>

text \<open>
  Claim C9. Whatever the state before (FAULT included), when the \<^verbatim>\<open>IN_MODE_02\<close>
  response is parsed to the integer \<open>r\<close>: \<open>r = 0\<close> sets \<open>is_on\<close> to true and the
  state to RUNNING; \<open>r = 1\<close> sets \<open>is_on\<close> to false and leaves the state; any other
  \<open>r\<close> leaves both.
\<close>

theorem read_is_on_mode:
  assumes "port IN_MODE_02 = Inr response"
    and "float_str py response = Some x"
    and "int_float x = Inr r"
  shows "(r = 0 \<longrightarrow> priv_read_is_on py port s =
            Inr (s\<lparr>sent := sent s @ [IN_MODE_02], is_on := True, state := RUNNING\<rparr>))
       \<and> (r = 1 \<longrightarrow> priv_read_is_on py port s =
            Inr (s\<lparr>sent := sent s @ [IN_MODE_02], is_on := False\<rparr>))
       \<and> (r \<noteq> 0 \<and> r \<noteq> 1 \<longrightarrow> priv_read_is_on py port s =
            Inr (s\<lparr>sent := sent s @ [IN_MODE_02]\<rparr>))"
  using assms by (simp add: priv_read_is_on_def exchange_def set_state_def)

theorem read_is_on_mode_witness:
  "float_str decimal ''0'' = Some (Finite 0) \<and> int_float (Finite 0) = Inr 0
   \<and> float_str decimal ''1'' = Some (Finite 1) \<and> int_float (Finite 1) = Inr 1
   \<and> float_str decimal ''2'' = Some (Finite 2) \<and> int_float (Finite 2) = Inr 2
   \<and> priv_read_is_on decimal (answering ''0'') (set_state FAULT initial) =
       Inr (initial\<lparr>sent := [IN_MODE_02], is_on := True, state := RUNNING\<rparr>)
   \<and> priv_read_is_on decimal (answering ''1'') (set_state FAULT (write_is_on True initial)) =
       Inr (initial\<lparr>sent := [IN_MODE_02], is_on := False, is_on_toggle := True,
                    state := FAULT\<rparr>)
   \<and> priv_read_is_on decimal (answering ''2'') (set_state FAULT (write_is_on True initial)) =
       Inr (initial\<lparr>sent := [IN_MODE_02], is_on := True, is_on_toggle := True,
                    state := FAULT\<rparr>)"
proof -
  have f0: "float_str decimal ''0'' = Some (Finite 0)" by code_simp
  have f1: "float_str decimal ''1'' = Some (Finite 1)" by code_simp
  have f2: "float_str decimal ''2'' = Some (Finite 2)" by code_simp
  show ?thesis
    using f0 f1 f2
      read_is_on_mode [where port = "answering ''0''" and response = "''0''" and py = decimal
        and x = "Finite 0" and r = 0 and s = "set_state FAULT initial"]
      read_is_on_mode [where port = "answering ''1''" and response = "''1''" and py = decimal
        and x = "Finite 1" and r = 1 and s = "set_state FAULT (write_is_on True initial)"]
      read_is_on_mode [where port = "answering ''2''" and response = "''2''" and py = decimal
        and x = "Finite 2" and r = 2 and s = "set_state FAULT (write_is_on True initial)"]
    by (simp add: set_state_def initial_def answering_def write_is_on_def)
qed

subsection \<open>The status code\<close>

text \<open>
  Claim C5. When the \<^verbatim>\<open>STATUS\<close> response is parsed to -1, \<^verbatim>\<open>_read_chiller_status\<close>
  sets the state to FAULT and returns normally, so the statements that follow it in the
  cycle, and the later cycles, are run. When the response is parsed to 0 the state is
  left as it was, whatever it was: a FAULT entered earlier is not cleared by it.
\<close>

theorem status_alarm_sets_fault:
  assumes "port STATUS = Inr response"
    and "float_str py response = Some x"
    and "port STAT = Inr status_text"
  shows "(int_float x = Inr (- 1) \<longrightarrow>
           priv_read_chiller_status py port s =
             Inr (s\<lparr>sent := sent s @ [STATUS, STAT], state := FAULT,
                    chiller_status := status_text\<rparr>)
           \<and> in_sequence (priv_read_chiller_status py port # rest) s =
               in_sequence rest
                 (s\<lparr>sent := sent s @ [STATUS, STAT], state := FAULT,
                    chiller_status := status_text\<rparr>))
       \<and> (int_float x = Inr 0 \<longrightarrow>
           priv_read_chiller_status py port s =
             Inr (s\<lparr>sent := sent s @ [STATUS, STAT], chiller_status := status_text\<rparr>))"
proof -
  have alarm: "priv_read_chiller_status py port s =
      Inr (s\<lparr>sent := sent s @ [STATUS, STAT], state := FAULT, chiller_status := status_text\<rparr>)"
    if "int_float x = Inr (- 1)"
    using assms that by (simp add: priv_read_chiller_status_def exchange_def set_state_def)
  have ok: "priv_read_chiller_status py port s =
      Inr (s\<lparr>sent := sent s @ [STATUS, STAT], chiller_status := status_text\<rparr>)"
    if "int_float x = Inr 0"
    using assms that by (simp add: priv_read_chiller_status_def exchange_def set_state_def)
  from alarm ok show ?thesis by simp
qed

theorem status_alarm_sets_fault_witness:
  "float_str decimal ''-1'' = Some (Finite (- 1)) \<and> int_float (Finite (- 1)) = Inr (- 1)
   \<and> float_str decimal ''0'' = Some (Finite 0) \<and> int_float (Finite 0) = Inr 0
   \<and> priv_read_chiller_status decimal (reference_device(STATUS := Inr ''-1'')) initial =
       Inr (initial\<lparr>sent := [STATUS, STAT], state := FAULT, chiller_status := ''OK''\<rparr>)
   \<and> priv_read_chiller_status decimal reference_device (set_state FAULT initial) =
       Inr (initial\<lparr>sent := [STATUS, STAT], state := FAULT, chiller_status := ''OK''\<rparr>)
   \<and> communication_loop decimal
        [reference_device(STATUS := Inr ''-1'', IN_MODE_02 := Inr ''1''),
         reference_device(IN_MODE_02 := Inr ''1'')] initial =
       Inr \<lparr>state = FAULT, bath_temp = Finite (47 / 2), temp_setp = Finite 21,
            temp_setp_changed = False, chiller_status = ''OK'', is_on = False,
            is_on_toggle = False, pressure = Finite (6 / 5),
            sent = [IN_PV_00, IN_PV_02, IN_SP_00, STATUS, STAT, IN_MODE_02,
                    IN_PV_00, IN_PV_02, IN_SP_00, STATUS, STAT, IN_MODE_02],
            pushed = []\<rparr>"
proof -
  have m: "float_str decimal ''-1'' = Some (Finite (- 1))" by code_simp
  have mi: "int_float (Finite (- 1)) = Inr (- 1)" by code_simp
  have z: "float_str decimal ''0'' = Some (Finite 0)" by code_simp
  have zi: "int_float (Finite 0) = Inr 0" by code_simp
  have run: "communication_loop decimal
        [reference_device(STATUS := Inr ''-1'', IN_MODE_02 := Inr ''1''),
         reference_device(IN_MODE_02 := Inr ''1'')] initial =
       Inr \<lparr>state = FAULT, bath_temp = Finite (47 / 2), temp_setp = Finite 21,
            temp_setp_changed = False, chiller_status = ''OK'', is_on = False,
            is_on_toggle = False, pressure = Finite (6 / 5),
            sent = [IN_PV_00, IN_PV_02, IN_SP_00, STATUS, STAT, IN_MODE_02,
                    IN_PV_00, IN_PV_02, IN_SP_00, STATUS, STAT, IN_MODE_02],
            pushed = []\<rparr>"
    by code_simp
  have "priv_read_chiller_status decimal (reference_device(STATUS := Inr ''-1'')) initial =
      Inr (initial\<lparr>sent := sent initial @ [STATUS, STAT], state := FAULT,
             chiller_status := ''OK''\<rparr>)"
    using mi
      status_alarm_sets_fault [where port = "reference_device(STATUS := Inr ''-1'')"
        and response = "''-1''" and py = decimal and x = "Finite (- 1)"
        and status_text = "''OK''" and s = initial, OF _ m]
    by simp
  then have alarm: "priv_read_chiller_status decimal (reference_device(STATUS := Inr ''-1''))
      initial = Inr (initial\<lparr>sent := [STATUS, STAT], state := FAULT, chiller_status := ''OK''\<rparr>)"
    by (simp add: initial_def)
  have "priv_read_chiller_status decimal reference_device (set_state FAULT initial) =
      Inr ((set_state FAULT initial)\<lparr>sent := sent (set_state FAULT initial) @ [STATUS, STAT],
             chiller_status := ''OK''\<rparr>)"
    using zi
      status_alarm_sets_fault [where port = reference_device
        and response = "''0''" and py = decimal and x = "Finite 0"
        and status_text = "''OK''" and s = "set_state FAULT initial", OF _ z]
    by simp
  then have sticky: "priv_read_chiller_status decimal reference_device (set_state FAULT initial) =
      Inr (initial\<lparr>sent := [STATUS, STAT], state := FAULT, chiller_status := ''OK''\<rparr>)"
    by (simp add: initial_def set_state_def)
  from m mi z zi alarm sticky run show ?thesis by blast
qed

text \<open>
  Claim C1, which the code does not meet. The claim asks that a response that cannot be
  decoded is never fatal, for every read step and for \<^verbatim>\<open>STATUS\<close> by name. Four of the
  read steps catch the \<^verbatim>\<open>ValueError\<close>; \<^verbatim>\<open>_read_chiller_status\<close> does not. After
  a start-up against the reference device, a cycle in which \<^verbatim>\<open>STATUS\<close> is answered with
  the text \<^verbatim>\<open>ALARM\<close>, or with nothing (a read that timed out), ends the thread with
  \<^verbatim>\<open>ValueError\<close>: the status text and the run mode are not read and the second cycle
  never runs. The same text as the answer to \<^verbatim>\<open>IN_PV_00\<close> is survived, and both cycles
  are completed.
\<close>

theorem status_decode_error_ends_thread:
  "communication_loop decimal [reference_device(STATUS := Inr ''ALARM''), reference_device]
     (fst (init_device decimal (Inr reference_device))) =
     Inl (ValueError,
          \<lparr>state = ON, bath_temp = Finite (47 / 2), temp_setp = Finite 21,
           temp_setp_changed = False, chiller_status = [], is_on = False,
           is_on_toggle = False, pressure = Finite (6 / 5),
           sent = [STATUS, IN_PV_00, IN_PV_02, IN_SP_00, STATUS], pushed = []\<rparr>)
   \<and> communication_loop decimal [reference_device(STATUS := Inr []), reference_device]
     (fst (init_device decimal (Inr reference_device))) =
     Inl (ValueError,
          \<lparr>state = ON, bath_temp = Finite (47 / 2), temp_setp = Finite 21,
           temp_setp_changed = False, chiller_status = [], is_on = False,
           is_on_toggle = False, pressure = Finite (6 / 5),
           sent = [STATUS, IN_PV_00, IN_PV_02, IN_SP_00, STATUS], pushed = []\<rparr>)
   \<and> communication_loop decimal [reference_device(IN_PV_00 := Inr ''ALARM''), reference_device]
     (fst (init_device decimal (Inr reference_device))) =
     Inr \<lparr>state = RUNNING, bath_temp = Finite (47 / 2), temp_setp = Finite 21,
          temp_setp_changed = False, chiller_status = ''OK'', is_on = True,
          is_on_toggle = False, pressure = Finite (6 / 5),
          sent = [STATUS, IN_PV_00, IN_PV_02, IN_SP_00, STATUS, STAT, IN_MODE_02,
                  IN_PV_00, IN_PV_02, IN_SP_00, STATUS, STAT, IN_MODE_02],
          pushed = []\<rparr>"
  by code_simp

subsection \<open>Order of the exchanges in a cycle\<close>

text \<open>
  Claim C3. A cycle that is completed has sent, in this order: the flushes of the
  requests pending at its start (\<^verbatim>\<open>START\<close> or \<^verbatim>\<open>STOP\<close>, then \<open>OUT_SP_00\<close> with the
  pending value), then \<^verbatim>\<open>IN_PV_00\<close>, \<^verbatim>\<open>IN_PV_02\<close>, \<^verbatim>\<open>IN_SP_00\<close>, \<^verbatim>\<open>STATUS\<close>,
  \<^verbatim>\<open>STAT\<close>, \<^verbatim>\<open>IN_MODE_02\<close>; both pending flags are then clear. A cycle that an
  exception ends has sent a prefix of that sequence, so in no cycle does a read precede
  a flush.
\<close>

theorem cycle_exchange_order:
  "(communication_cycle py port s = Inr s' \<longrightarrow>
      sent s' = sent s @ flush_commands s @ read_commands
      \<and> \<not> temp_setp_changed s' \<and> \<not> is_on_toggle s')
   \<and> (communication_cycle py port s = Inl (e, s') \<longrightarrow>
      prefix (sent s') (sent s @ flush_commands s @ read_commands))"
  using communication_cycle_Inr [of py port s s'] communication_cycle_Inl [of py port s e s']
  by blast

theorem cycle_exchange_order_witness:
  "communication_cycle decimal reference_device (write_temp_setp (Finite 25) initial) =
     Inr \<lparr>state = RUNNING, bath_temp = Finite (47 / 2), temp_setp = Finite 21,
          temp_setp_changed = False, chiller_status = ''OK'', is_on = True,
          is_on_toggle = False, pressure = Finite (6 / 5),
          sent = [OUT_SP_00 (Finite 25), IN_PV_00, IN_PV_02, IN_SP_00, STATUS, STAT, IN_MODE_02],
          pushed = []\<rparr>
   \<and> flush_commands (write_temp_setp (Finite 25) initial) = [OUT_SP_00 (Finite 25)]
   \<and> communication_cycle decimal (reference_device(IN_SP_00 := Inl SerialException))
        (write_temp_setp (Finite 25) initial) =
     Inl (SerialException,
          \<lparr>state = INIT, bath_temp = Finite (47 / 2), temp_setp = Finite 25,
           temp_setp_changed = False, chiller_status = [], is_on = False,
           is_on_toggle = False, pressure = Finite (6 / 5),
           sent = [OUT_SP_00 (Finite 25), IN_PV_00, IN_PV_02, IN_SP_00], pushed = []\<rparr>)
   \<and> prefix [OUT_SP_00 (Finite 25), IN_PV_00, IN_PV_02, IN_SP_00]
        (sent (write_temp_setp (Finite 25) initial)
         @ flush_commands (write_temp_setp (Finite 25) initial) @ read_commands)"
proof -
  have completed: "communication_cycle decimal reference_device (write_temp_setp (Finite 25) initial) =
     Inr \<lparr>state = RUNNING, bath_temp = Finite (47 / 2), temp_setp = Finite 21,
          temp_setp_changed = False, chiller_status = ''OK'', is_on = True,
          is_on_toggle = False, pressure = Finite (6 / 5),
          sent = [OUT_SP_00 (Finite 25), IN_PV_00, IN_PV_02, IN_SP_00, STATUS, STAT, IN_MODE_02],
          pushed = []\<rparr>"
    by code_simp
  have broken: "communication_cycle decimal (reference_device(IN_SP_00 := Inl SerialException))
        (write_temp_setp (Finite 25) initial) =
     Inl (SerialException,
          \<lparr>state = INIT, bath_temp = Finite (47 / 2), temp_setp = Finite 25,
           temp_setp_changed = False, chiller_status = [], is_on = False,
           is_on_toggle = False, pressure = Finite (6 / 5),
           sent = [OUT_SP_00 (Finite 25), IN_PV_00, IN_PV_02, IN_SP_00], pushed = []\<rparr>)"
    by code_simp
  have fl: "flush_commands (write_temp_setp (Finite 25) initial) = [OUT_SP_00 (Finite 25)]"
    by (simp add: flush_commands_def write_temp_setp_def initial_def)
  show ?thesis
    using completed broken fl
      cycle_exchange_order [where py = decimal and port = reference_device
        and s = "write_temp_setp (Finite 25) initial"
        and s' = "\<lparr>state = RUNNING, bath_temp = Finite (47 / 2), temp_setp = Finite 21,
          temp_setp_changed = False, chiller_status = ''OK'', is_on = True,
          is_on_toggle = False, pressure = Finite (6 / 5),
          sent = [OUT_SP_00 (Finite 25), IN_PV_00, IN_PV_02, IN_SP_00, STATUS, STAT, IN_MODE_02],
          pushed = []\<rparr>"]
      cycle_exchange_order [where py = decimal
        and port = "reference_device(IN_SP_00 := Inl SerialException)"
        and s = "write_temp_setp (Finite 25) initial" and e = SerialException
        and s' = "\<lparr>state = INIT, bath_temp = Finite (47 / 2), temp_setp = Finite 25,
           temp_setp_changed = False, chiller_status = [], is_on = False,
           is_on_toggle = False, pressure = Finite (6 / 5),
           sent = [OUT_SP_00 (Finite 25), IN_PV_00, IN_PV_02, IN_SP_00], pushed = []\<rparr>"]
    by simp
qed

subsection \<open>Power requests\<close>

text \<open>
  When the writes land between two cycles, the request is flushed as asked. A second
  \<^verbatim>\<open>write_is_on\<close> overwrites the first. The flush sends \<^verbatim>\<open>START\<close> for on and
  \<^verbatim>\<open>STOP\<close> for off, sets the state to RUNNING or ON, pushes the value as a change event
  and clears the flag. The cycle that follows the two writes sends exactly one of
  \<^verbatim>\<open>START\<close> and \<^verbatim>\<open>STOP\<close>, the one of the last write, and pushes one event. A cycle with
  no pending power request sends neither and pushes nothing.
\<close>

lemma power_request_between_cycles:
  "write_is_on b2 (write_is_on b1 s) = write_is_on b2 s
   \<and> (port (if b2 then START else STOP) = Inr r \<longrightarrow>
        priv_write_is_on port (write_is_on b2 (write_is_on b1 s)) =
          Inr (s\<lparr>is_on := b2, sent := sent s @ [if b2 then START else STOP],
                 state := (if b2 then RUNNING else ON), pushed := pushed s @ [b2],
                 is_on_toggle := False\<rparr>))
   \<and> (communication_cycle py port (write_is_on b2 (write_is_on b1 s)) = Inr s' \<longrightarrow>
        (\<exists>rest. sent s' = sent s @ (if b2 then START else STOP) # rest
                \<and> START \<notin> set rest \<and> STOP \<notin> set rest)
        \<and> pushed s' = pushed s @ [b2] \<and> \<not> is_on_toggle s')
   \<and> (\<not> is_on_toggle s \<and> communication_cycle py port s = Inr s' \<longrightarrow>
        (\<exists>rest. sent s' = sent s @ rest \<and> START \<notin> set rest \<and> STOP \<notin> set rest)
        \<and> pushed s' = pushed s)"
proof -
  have a: "write_is_on b2 (write_is_on b1 s) = write_is_on b2 s"
    by (simp add: write_is_on_def)
  have b: "port (if b2 then START else STOP) = Inr r \<Longrightarrow>
        priv_write_is_on port (write_is_on b2 (write_is_on b1 s)) =
          Inr (s\<lparr>is_on := b2, sent := sent s @ [if b2 then START else STOP],
                 state := (if b2 then RUNNING else ON), pushed := pushed s @ [b2],
                 is_on_toggle := False\<rparr>)"
    by (simp add: write_is_on_def priv_write_is_on_def exchange_def set_state_def)
  have c: "(\<exists>rest. sent s' = sent s @ (if b2 then START else STOP) # rest
                \<and> START \<notin> set rest \<and> STOP \<notin> set rest)
        \<and> pushed s' = pushed s @ [b2] \<and> \<not> is_on_toggle s'"
    if "communication_cycle py port (write_is_on b2 (write_is_on b1 s)) = Inr s'"
    using communication_cycle_Inr [OF that]
    by (simp add: write_is_on_def flush_commands_def read_commands_def)
  have d: "(\<exists>rest. sent s' = sent s @ rest \<and> START \<notin> set rest \<and> STOP \<notin> set rest)
        \<and> pushed s' = pushed s"
    if "\<not> is_on_toggle s" and "communication_cycle py port s = Inr s'"
    using communication_cycle_Inr [OF that(2)] that(1)
    by (simp add: flush_commands_def read_commands_def)
  from a b c d show ?thesis by blast
qed

text \<open>
  Claim C4, which the code does not meet. The claim asks that after a power-on request
  followed by a power-off request the next cycle sends the one command of the last
  request. The requested value and the value read back from the device share the field
  \<^verbatim>\<open>_is_on\<close>, and \<^verbatim>\<open>_read_is_on\<close> assigns it without looking at \<^verbatim>\<open>_is_on_toggle\<close>.
  After a start-up against the reference device, let the two writes land in the first
  cycle between the second \<^verbatim>\<open>with\<close> block and \<^verbatim>\<open>_read_is_on\<close>. The device answers
  \<^verbatim>\<open>0\<close> to \<^verbatim>\<open>IN_MODE_02\<close>, so the first cycle ends with \<open>is_on\<close> true and the request
  still pending; the next cycle sends \<^verbatim>\<open>START\<close>, sets RUNNING and pushes the value true,
  although the last request was for off. The same two writes landing before the first
  method of the second cycle send \<^verbatim>\<open>STOP\<close> and push false.
\<close>

theorem power_off_request_sends_start:
  "communication_cycle_with decimal reference_device
     [[], [], [], [], [], [], [Write_is_on True, Write_is_on False]]
     (fst (init_device decimal (Inr reference_device))) =
     Inr \<lparr>state = RUNNING, bath_temp = Finite (47 / 2), temp_setp = Finite 21,
          temp_setp_changed = False, chiller_status = ''OK'', is_on = True,
          is_on_toggle = True, pressure = Finite (6 / 5),
          sent = [STATUS, IN_PV_00, IN_PV_02, IN_SP_00, STATUS, STAT, IN_MODE_02],
          pushed = []\<rparr>
   \<and> communication_loop_with decimal
     [(reference_device, [[], [], [], [], [], [], [Write_is_on True, Write_is_on False]]),
      (reference_device, [])]
     (fst (init_device decimal (Inr reference_device))) =
     Inr \<lparr>state = RUNNING, bath_temp = Finite (47 / 2), temp_setp = Finite 21,
          temp_setp_changed = False, chiller_status = ''OK'', is_on = True,
          is_on_toggle = False, pressure = Finite (6 / 5),
          sent = [STATUS, IN_PV_00, IN_PV_02, IN_SP_00, STATUS, STAT, IN_MODE_02,
                  START, IN_PV_00, IN_PV_02, IN_SP_00, STATUS, STAT, IN_MODE_02],
          pushed = [True]\<rparr>
   \<and> communication_loop_with decimal
     [(reference_device, []),
      (reference_device, [[Write_is_on True, Write_is_on False]])]
     (fst (init_device decimal (Inr reference_device))) =
     Inr \<lparr>state = RUNNING, bath_temp = Finite (47 / 2), temp_setp = Finite 21,
          temp_setp_changed = False, chiller_status = ''OK'', is_on = True,
          is_on_toggle = False, pressure = Finite (6 / 5),
          sent = [STATUS, IN_PV_00, IN_PV_02, IN_SP_00, STATUS, STAT, IN_MODE_02,
                  STOP, IN_PV_00, IN_PV_02, IN_SP_00, STATUS, STAT, IN_MODE_02],
          pushed = [False]\<rparr>"
  by code_simp

subsection \<open>The setpoint attribute\<close>

text \<open>
  Claim C8 as stated does not hold: \<^verbatim>\<open>write_temp_setp\<close> stores the value in the same
  field that \<^verbatim>\<open>read_temp_setp\<close> returns. After \<^verbatim>\<open>IN_SP_00\<close> was answered with
  \<^verbatim>\<open>18.5\<close>, a write of 25 makes the attribute read 25 although nothing has been sent
  to the device since.
\<close>

theorem temp_setp_write_counterexample:
  "priv_read_setp decimal (answering ''18.5'') initial =
     Inr (initial\<lparr>temp_setp := Finite (37 / 2), sent := [IN_SP_00]\<rparr>)
   \<and> read_temp_setp (initial\<lparr>temp_setp := Finite (37 / 2), sent := [IN_SP_00]\<rparr>) = Finite (37 / 2)
   \<and> read_temp_setp
        (write_temp_setp (Finite 25) (initial\<lparr>temp_setp := Finite (37 / 2), sent := [IN_SP_00]\<rparr>))
       \<noteq> Finite (37 / 2)
   \<and> sent (write_temp_setp (Finite 25) (initial\<lparr>temp_setp := Finite (37 / 2), sent := [IN_SP_00]\<rparr>))
       = [IN_SP_00]"
proof -
  have "float_str decimal ''18.5'' = Some (Finite (37 / 2))" by code_simp
  then show ?thesis
    by (simp add: priv_read_setp_def exchange_def answering_def initial_def read_temp_setp_def
        write_temp_setp_def)
qed

text \<open>
  Claim C8, amended. The attribute reads the setpoint field. The field starts at 21.0
  and is assigned by a write of the attribute and by an \<^verbatim>\<open>IN_SP_00\<close> read whose
  response \<^verbatim>\<open>float\<close> accepts; no other method of the object changes it, whether the
  method returns or raises. So the attribute reads the value of the latest such read or
  write, whichever came last. A write stores its value at once, sets the pending flag
  and sends nothing. Since the statements hold in every state of the object, they do
  not depend on where in a cycle the write lands.
\<close>

theorem temp_setp_write_is_immediate:
  "read_temp_setp initial = Finite 21
   \<and> read_temp_setp (write_temp_setp v s) = v
   \<and> temp_setp_changed (write_temp_setp v s)
   \<and> sent (write_temp_setp v s) = sent s
   \<and> (port IN_SP_00 = Inr R \<and> float_str py R = Some x \<longrightarrow>
        priv_read_setp py port s = Inr (s\<lparr>sent := sent s @ [IN_SP_00], temp_setp := x\<rparr>)
        \<and> read_temp_setp (s\<lparr>sent := sent s @ [IN_SP_00], temp_setp := x\<rparr>) = x)
   \<and> (port IN_SP_00 = Inr R \<and> float_str py R = None \<longrightarrow>
        priv_read_setp py port s = Inr (s\<lparr>sent := sent s @ [IN_SP_00]\<rparr>))
   \<and> read_temp_setp (write_is_on b s) = read_temp_setp s
   \<and> (f \<in> {priv_write_is_on port, priv_write_setp port, priv_read_bath_temp py port,
             priv_read_pressure py port, priv_read_chiller_status py port,
             priv_read_is_on py port}
        \<and> (f s = Inr s' \<or> f s = Inl (e, s')) \<longrightarrow>
        read_temp_setp s' = read_temp_setp s)"
proof -
  have frame: "read_temp_setp s' = read_temp_setp s"
    if "f \<in> {priv_write_is_on port, priv_write_setp port, priv_read_bath_temp py port,
             priv_read_pressure py port, priv_read_chiller_status py port,
             priv_read_is_on py port}"
      and "f s = Inr s' \<or> f s = Inl (e, s')"
    using that
    by (auto simp: read_temp_setp_def priv_write_is_on_def priv_write_setp_def
        priv_read_bath_temp_def priv_read_pressure_def priv_read_chiller_status_def
        priv_read_is_on_def exchange_Inr_iff exchange_Inl_iff set_state_def Let_def
        split: if_splits sum.splits option.splits prod.splits)
  have assigned: "read_temp_setp initial = Finite 21
   \<and> read_temp_setp (write_temp_setp v s) = v
   \<and> temp_setp_changed (write_temp_setp v s)
   \<and> sent (write_temp_setp v s) = sent s
   \<and> (port IN_SP_00 = Inr R \<and> float_str py R = Some x \<longrightarrow>
        priv_read_setp py port s = Inr (s\<lparr>sent := sent s @ [IN_SP_00], temp_setp := x\<rparr>)
        \<and> read_temp_setp (s\<lparr>sent := sent s @ [IN_SP_00], temp_setp := x\<rparr>) = x)
   \<and> (port IN_SP_00 = Inr R \<and> float_str py R = None \<longrightarrow>
        priv_read_setp py port s = Inr (s\<lparr>sent := sent s @ [IN_SP_00]\<rparr>))
   \<and> read_temp_setp (write_is_on b s) = read_temp_setp s"
    by (simp add: read_temp_setp_def write_temp_setp_def write_is_on_def priv_read_setp_def
        exchange_def initial_def)
  from frame assigned show ?thesis by blast
qed

theorem temp_setp_write_is_immediate_witness:
  "float_str decimal ''18.5'' = Some (Finite (37 / 2))
   \<and> float_str decimal ''E01'' = None
   \<and> read_temp_setp (write_temp_setp (Finite 25) initial) = Finite 25
   \<and> priv_read_setp decimal (answering ''18.5'') (write_temp_setp (Finite 25) initial) =
       Inr (initial\<lparr>temp_setp_changed := True, sent := [IN_SP_00],
                    temp_setp := Finite (37 / 2)\<rparr>)
   \<and> priv_read_setp decimal (answering ''E01'') (write_temp_setp (Finite 25) initial) =
       Inr (initial\<lparr>temp_setp_changed := True, sent := [IN_SP_00], temp_setp := Finite 25\<rparr>)
   \<and> priv_read_bath_temp decimal (answering ''18.5'') (write_temp_setp (Finite 25) initial) =
       Inr (initial\<lparr>temp_setp_changed := True, sent := [IN_PV_00], temp_setp := Finite 25,
                    bath_temp := Finite (37 / 2)\<rparr>)
   \<and> read_temp_setp (initial\<lparr>temp_setp_changed := True, sent := [IN_PV_00],
         temp_setp := Finite 25, bath_temp := Finite (37 / 2)\<rparr>) = Finite 25"
proof -
  have good: "float_str decimal ''18.5'' = Some (Finite (37 / 2))" by code_simp
  have bad: "float_str decimal ''E01'' = None" by code_simp
  have bath: "priv_read_bath_temp decimal (answering ''18.5'')
       (write_temp_setp (Finite 25) initial) =
       Inr (initial\<lparr>temp_setp_changed := True, sent := [IN_PV_00], temp_setp := Finite 25,
                    bath_temp := Finite (37 / 2)\<rparr>)"
    using good
    by (simp add: priv_read_bath_temp_def exchange_def answering_def write_temp_setp_def
        initial_def)
  show ?thesis
    using good bad bath
      temp_setp_write_is_immediate [where port = "answering ''18.5''" and R = "''18.5''"
        and py = decimal and x = "Finite (37 / 2)" and v = "Finite 25"
        and s = "write_temp_setp (Finite 25) initial"
        and f = "priv_read_bath_temp decimal (answering ''18.5'')"
        and s' = "initial\<lparr>temp_setp_changed := True, sent := [IN_PV_00],
          temp_setp := Finite 25, bath_temp := Finite (37 / 2)\<rparr>"]
      temp_setp_write_is_immediate [where port = "answering ''E01''" and R = "''E01''"
        and py = decimal and v = "Finite 25" and s = "write_temp_setp (Finite 25) initial"]
      temp_setp_write_is_immediate [where v = "Finite 25" and s = initial]
    by (simp add: answering_def initial_def write_temp_setp_def read_temp_setp_def)
qed

text \<open>
  What the device receives after a write is not part of the amended claim. It depends on
  where the write lands: a write of 25 that lands in the first cycle just before
  \<^verbatim>\<open>_read_setp\<close> is overwritten by the response \<^verbatim>\<open>21.0\<close> with the flag still set, and
  the next flush sends the value 21.
\<close>

lemma setpoint_write_before_read_setp:
  "communication_loop_with decimal
     [(reference_device, [[], [], [], [], [Write_temp_setp (Finite 25)]]),
      (reference_device, [])]
     (fst (init_device decimal (Inr reference_device))) =
     Inr \<lparr>state = RUNNING, bath_temp = Finite (47 / 2), temp_setp = Finite 21,
          temp_setp_changed = False, chiller_status = ''OK'', is_on = True,
          is_on_toggle = False, pressure = Finite (6 / 5),
          sent = [STATUS, IN_PV_00, IN_PV_02, IN_SP_00, STATUS, STAT, IN_MODE_02,
                  OUT_SP_00 (Finite 21), IN_PV_00, IN_PV_02, IN_SP_00, STATUS, STAT,
                  IN_MODE_02],
          pushed = []\<rparr>"
  by code_simp

subsection \<open>The reference run\<close>

text \<open>
  Claim C6. Let \<^verbatim>\<open>float\<close> map the texts \<^verbatim>\<open>23.5\<close>, \<^verbatim>\<open>1.2\<close> and \<^verbatim>\<open>21.0\<close> to \<open>b\<close>,
  \<open>p\<close> and \<open>t\<close>, and \<^verbatim>\<open>0\<close> to zero. Against the reference device, one cycle from
  the initial object publishes \<open>bath_temp = b\<close>, \<open>pressure = p\<close>, \<open>temp_setp = t\<close>,
  \<open>chiller_status = OK\<close>, \<open>is_on\<close> true and the state RUNNING. The same holds for the
  first cycle after \<^verbatim>\<open>init_device\<close>, which has found the state ON and started the
  thread.
\<close>

theorem reference_run:
  assumes "float_str py ''0'' = Some (Finite 0)"
    and "float_str py ''23.5'' = Some b"
    and "float_str py ''1.2'' = Some p"
    and "float_str py ''21.0'' = Some t"
    and "int_str py ''0'' = Some 0"
  shows "(\<exists>s'. communication_cycle py reference_device initial = Inr s'
            \<and> read_bath_temp s' = b \<and> read_pressure s' = p \<and> read_temp_setp s' = t
            \<and> read_chiller_status s' = ''OK'' \<and> read_is_on s' \<and> state s' = RUNNING)
       \<and> init_device py (Inr reference_device) = (set_state ON (initial\<lparr>sent := [STATUS]\<rparr>), True)
       \<and> (\<exists>s'. communication_cycle py reference_device
                 (fst (init_device py (Inr reference_device))) = Inr s'
            \<and> read_bath_temp s' = b \<and> read_pressure s' = p \<and> read_temp_setp s' = t
            \<and> read_chiller_status s' = ''OK'' \<and> read_is_on s' \<and> state s' = RUNNING)"
  using assms
  by (simp add: communication_cycle_def init_device_def exchange_def set_state_def
      priv_write_is_on_def priv_write_setp_def priv_read_bath_temp_def priv_read_pressure_def
      priv_read_setp_def priv_read_chiller_status_def priv_read_is_on_def initial_def
      read_bath_temp_def read_pressure_def read_temp_setp_def read_chiller_status_def
      read_is_on_def)

theorem reference_run_witness:
  "float_str decimal ''0'' = Some (Finite 0)
   \<and> float_str decimal ''23.5'' = Some (Finite (47 / 2))
   \<and> float_str decimal ''1.2'' = Some (Finite (6 / 5))
   \<and> float_str decimal ''21.0'' = Some (Finite 21)
   \<and> int_str decimal ''0'' = Some 0
   \<and> (\<exists>s'. communication_cycle decimal reference_device initial = Inr s'
            \<and> read_bath_temp s' = Finite (47 / 2) \<and> read_pressure s' = Finite (6 / 5)
            \<and> read_temp_setp s' = Finite 21
            \<and> read_chiller_status s' = ''OK'' \<and> read_is_on s' \<and> state s' = RUNNING)"
proof -
  have h0: "float_str decimal ''0'' = Some (Finite 0)" by code_simp
  have h1: "float_str decimal ''23.5'' = Some (Finite (47 / 2))" by code_simp
  have h2: "float_str decimal ''1.2'' = Some (Finite (6 / 5))" by code_simp
  have h3: "float_str decimal ''21.0'' = Some (Finite 21)" by code_simp
  have h4: "int_str decimal ''0'' = Some 0" by code_simp
  show ?thesis
    using h0 h1 h2 h3 h4 reference_run [OF h0 h1 h2 h3 h4]
    by simp
qed

subsection \<open>Start-up\<close>

text \<open>
  Claim C7. If opening the transport raises, or the response to the first
  \<^verbatim>\<open>STATUS\<close> is not accepted by \<^verbatim>\<open>int\<close>, then \<^verbatim>\<open>init_device\<close> leaves the state
  FAULT and does not start the communication thread. The same holds when the first
  exchange itself raises.
\<close>

theorem init_device_fault:
  "(conn = Inl e \<longrightarrow> init_device py conn = (set_state FAULT initial, False))
   \<and> (conn = Inr port \<and> port STATUS = Inr response \<and> int_str py response = None \<longrightarrow>
        init_device py conn = (set_state FAULT (initial\<lparr>sent := [STATUS]\<rparr>), False))
   \<and> (conn = Inr port \<and> port STATUS = Inl e \<longrightarrow>
        init_device py conn = (set_state FAULT (initial\<lparr>sent := [STATUS]\<rparr>), False))"
  by (simp add: init_device_def exchange_def initial_def)

theorem init_device_fault_witness:
  "int_str decimal ''0.0'' = None
   \<and> init_device decimal (Inl SerialException) = (set_state FAULT initial, False)
   \<and> init_device decimal (Inr (answering ''0.0'')) =
        (set_state FAULT (initial\<lparr>sent := [STATUS]\<rparr>), False)
   \<and> init_device decimal (Inr (failing SerialException)) =
        (set_state FAULT (initial\<lparr>sent := [STATUS]\<rparr>), False)
   \<and> state (set_state FAULT initial) = FAULT
   \<and> state (set_state FAULT (initial\<lparr>sent := [STATUS]\<rparr>)) = FAULT"
proof -
  have bad: "int_str decimal ''0.0'' = None" by code_simp
  show ?thesis
    using bad
      init_device_fault [where conn = "Inl SerialException" and e = SerialException
        and py = decimal]
      init_device_fault [where conn = "Inr (answering ''0.0'')" and port = "answering ''0.0''"
        and response = "''0.0''" and py = decimal]
      init_device_fault [where conn = "Inr (failing SerialException)"
        and port = "failing SerialException" and e = SerialException and py = decimal]
    by (simp add: set_state_def answering_def failing_def)
qed

text \<open>
  Claim C10. If the transport opens and the first \<^verbatim>\<open>STATUS\<close> response is an integer
  other than 0 and -1, then \<^verbatim>\<open>init_device\<close> leaves the state INIT and starts the
  communication thread.
\<close>

theorem init_device_unknown_status:
  assumes "conn = Inr port"
    and "port STATUS = Inr response"
    and "int_str py response = Some n"
    and "n \<noteq> 0" and "n \<noteq> - 1"
  shows "init_device py conn = (initial\<lparr>sent := [STATUS]\<rparr>, True)
         \<and> state (fst (init_device py conn)) = INIT"
  using assms by (simp add: init_device_def exchange_def initial_def)

theorem init_device_unknown_status_witness:
  "int_str decimal ''3'' = Some 3 \<and> (3::int) \<noteq> 0 \<and> (3::int) \<noteq> - 1
   \<and> init_device decimal (Inr (answering ''3'')) = (initial\<lparr>sent := [STATUS]\<rparr>, True)
   \<and> state (fst (init_device decimal (Inr (answering ''3'')))) = INIT"
proof -
  have three: "int_str decimal ''3'' = Some 3" by code_simp
  show ?thesis
    using three
      init_device_unknown_status [where conn = "Inr (answering ''3'')"
        and port = "answering ''3''" and response = "''3''" and py = decimal and n = 3]
    by (simp add: answering_def initial_def)
qed

end
